theory Spec2Isabelle
  imports Main
begin

section \<open>Python values and dictionaries\<close>

text \<open>
  The token payload is a Python dictionary with string keys. Its values are the ones the
  helpers of \<^verbatim>\<open>photobook/function.py\<close> put there: \<^verbatim>\<open>None\<close>, an integer (the user id) or a
  string (the operation name, a new email address).
\<close>

datatype pyval = PyNone | PyInt int | PyStr string

type_synonym pydict = "string \<rightharpoonup> pyval"

text \<open>\<^verbatim>\<open>d.get(k)\<close>: the value stored under \<open>k\<close>, and \<^verbatim>\<open>None\<close> when the key is absent.\<close>

definition dict_get :: "pydict \<Rightarrow> string \<Rightarrow> pyval" where
  "dict_get d k = (case d k of None \<Rightarrow> PyNone | Some v \<Rightarrow> v)"

text \<open>\<^verbatim>\<open>d.update(**kwargs)\<close>: every key of \<open>kwargs\<close> is bound anew, the others are kept.\<close>

definition dict_update :: "pydict \<Rightarrow> pydict \<Rightarrow> pydict" where
  "dict_update d kwargs = d ++ kwargs"

section \<open>The signed serializer\<close>

text \<open>
  \<^verbatim>\<open>Serializer\<close> is \<^verbatim>\<open>itsdangerous.TimedJSONWebSignatureSerializer\<close>, a library the
  repository imports. The model keeps what \<^verbatim>\<open>generate_token\<close> and \<^verbatim>\<open>validate_token\<close>
  observe of it:
  \<^item> the constructor takes the secret key and \<^verbatim>\<open>expires_in\<close>; when \<^verbatim>\<open>expires_in\<close> is
    \<^verbatim>\<open>None\<close> it takes the class constant \<^verbatim>\<open>DEFAULT_EXPIRES_IN = 3600\<close>;
  \<^item> \<^verbatim>\<open>dumps\<close> writes the header fields \<^verbatim>\<open>iat = now()\<close> and \<^verbatim>\<open>exp = iat + expires_in\<close>
    beside the payload and signs all of it with the key;
  \<^item> \<^verbatim>\<open>loads\<close> raises \<^verbatim>\<open>BadSignature\<close> when the signature does not verify, \<^verbatim>\<open>BadHeader\<close>
    when \<^verbatim>\<open>exp < 0\<close>, \<^verbatim>\<open>SignatureExpired\<close> when \<^verbatim>\<open>exp < now()\<close>, and returns the payload
    otherwise. \<^verbatim>\<open>BadHeader\<close> and \<^verbatim>\<open>SignatureExpired\<close> are subclasses of \<^verbatim>\<open>BadSignature\<close>.

  The wire format (base64 of JSON, joined by dots) and the HMAC are kept symbolic: a
  token is its header, its payload and a signature term that names the key and the
  signed content. A string that is no well-formed token at all behaves as a token whose
  signature does not verify. Times are Unix seconds, as \<^verbatim>\<open>int(time.time())\<close> gives them.
\<close>

datatype mac = HMAC string int int pydict

record token =
  header_iat :: int
  header_exp :: int
  payload :: pydict
  signature :: mac

record serializer =
  secret_key :: string
  expires_in :: int

definition DEFAULT_EXPIRES_IN :: int where
  "DEFAULT_EXPIRES_IN = 3600"

definition Serializer :: "string \<Rightarrow> int option \<Rightarrow> serializer" where
  "Serializer key expire_in =
     \<lparr>secret_key = key,
      expires_in = (case expire_in of None \<Rightarrow> DEFAULT_EXPIRES_IN | Some n \<Rightarrow> n)\<rparr>"

definition dumps :: "serializer \<Rightarrow> int \<Rightarrow> pydict \<Rightarrow> token" where
  "dumps s now d =
     (let iat = now; e = iat + expires_in s
      in \<lparr>header_iat = iat, header_exp = e, payload = d,
          signature = HMAC (secret_key s) iat e d\<rparr>)"

datatype bad_signature = BadSignature | BadHeader | SignatureExpired

definition loads :: "serializer \<Rightarrow> int \<Rightarrow> token \<Rightarrow> bad_signature + pydict" where
  "loads s now t =
     (if signature t \<noteq> HMAC (secret_key s) (header_iat t) (header_exp t) (payload t)
      then Inl BadSignature
      else if header_exp t < 0 then Inl BadHeader
      else if header_exp t < now then Inl SignatureExpired
      else Inr (payload t))"

section \<open>Users and the database session\<close>

text \<open>
  Modelled from the spec: the \<^verbatim>\<open>User\<close> and \<^verbatim>\<open>Notification\<close> models and the session \<^verbatim>\<open>db\<close>
  live in \<^verbatim>\<open>photobook/models.py\<close>, which is not among the sources. The spec's User
  Directory keeps, per user, an id, the confirmation flag, the password hash and the
  email, looks users up by email, and persists changes on commit; its Notification Store
  appends records \<^verbatim>\<open>{message, receiver, isRead = false}\<close>. The fields are the attributes
  \<^verbatim>\<open>function.py\<close> reads and writes. An attribute holds whatever Python value is assigned
  to it, so \<open>email\<close> is a \<^typ>\<open>pyval\<close>.
\<close>

record user =
  uid :: int
  username :: string
  confirmed :: bool
  password_hash :: string
  email :: pyval

record notification =
  message :: string
  receiver :: user
  is_read :: bool

text \<open>
  The database as the helpers see it: the persisted user rows, the persisted notification
  rows, the objects added to the session and not yet committed, and the number of commits
  so far.
\<close>

record db =
  directory :: "user list"
  notifications :: "notification list"
  pending :: "notification list"
  commits :: nat

text \<open>\<^verbatim>\<open>User.query.filter_by(email=e).first()\<close>\<close>

definition query_by_email :: "db \<Rightarrow> pyval \<Rightarrow> user option" where
  "query_by_email d e = find (\<lambda>r. email r = e) (directory d)"

text \<open>\<^verbatim>\<open>db.session.add(n)\<close>\<close>

definition session_add :: "notification \<Rightarrow> db \<Rightarrow> db" where
  "session_add n d = d\<lparr>pending := pending d @ [n]\<rparr>"

text \<open>
  \<^verbatim>\<open>db.session.commit()\<close>: the added objects become rows, in the order they were added,
  and the commit is counted.
\<close>

definition session_commit :: "db \<Rightarrow> db" where
  "session_commit d =
     d\<lparr>notifications := notifications d @ pending d, pending := [], commits := Suc (commits d)\<rparr>"

text \<open>
  A commit while the user object \<open>u\<close> carries changed attributes: the row of that user is
  written with the object's attributes, then the session commits.
\<close>

definition commit_user :: "user \<Rightarrow> db \<Rightarrow> db" where
  "commit_user u d =
     session_commit (d\<lparr>directory := map (\<lambda>r. if uid r = uid u then u else r) (directory d)\<rparr>)"

text \<open>
  Modelled from the spec: \<^verbatim>\<open>User.set_password\<close> (\<^verbatim>\<open>photobook/models.py\<close>) sets the user's
  password: it stores a hash derived from the password, here the function \<open>h\<close>. It has
  nothing to derive a hash from when the password is \<^verbatim>\<open>None\<close>, and raises. The function
  \<^verbatim>\<open>validate_token\<close> below takes the method as a parameter, so the theorems that do not
  name \<open>set_password\<close> hold for every behaviour of it.
\<close>

datatype exn = TypeError | ValueError

definition set_password :: "(string \<Rightarrow> string) \<Rightarrow> string option \<Rightarrow> user \<Rightarrow> exn + user" where
  "set_password h password u =
     (case password of
        None \<Rightarrow> Inl TypeError
      | Some p \<Rightarrow> Inr (u\<lparr>password_hash := h p\<rparr>))"

section \<open>Action tokens\<close>

text \<open>\<^verbatim>\<open>class Operations\<close>\<close>

definition CONFIRM :: string where "CONFIRM = ''confirm''"
definition RESET_PASSWORD :: string where "RESET_PASSWORD = ''reset-password''"
definition CHANGE_EMAIL :: string where "CHANGE_EMAIL = ''change-email''"

text \<open>
  \<^verbatim>\<open>generate_token(user, operation, expire_in=None, **kwargs)\<close>. The secret key is
  \<^verbatim>\<open>current_app.config['SECRET_KEY']\<close> and \<open>now\<close> is the clock at the call.
\<close>

definition generate_token ::
  "string \<Rightarrow> int \<Rightarrow> user \<Rightarrow> string \<Rightarrow> int option \<Rightarrow> pydict \<Rightarrow> token" where
  "generate_token key now u operation expire_in kwargs =
     (let s = Serializer key expire_in;
          data = [''id'' \<mapsto> PyInt (uid u), ''operation'' \<mapsto> PyStr operation];
          data = dict_update data kwargs
      in dumps s now data)"

text \<open>
  \<^verbatim>\<open>validate_token(user, token, operation, new_password=None)\<close>. The result is the value
  returned (\<open>Inr\<close>) or the exception that leaves the function (\<open>Inl\<close>), with the user object
  and the database as the call leaves them. \<open>sp\<close> is the method \<^verbatim>\<open>user.set_password\<close>.
\<close>

fun validate_token ::
  "string \<Rightarrow> int \<Rightarrow> (string option \<Rightarrow> user \<Rightarrow> 'e + user) \<Rightarrow> db \<Rightarrow> user \<Rightarrow> token \<Rightarrow> string \<Rightarrow>
   string option \<Rightarrow> ('e + bool) \<times> user \<times> db" where
  "validate_token key now sp d u tok operation new_password =
     (let s = Serializer key None in
      case loads s now tok of
        Inl _ \<Rightarrow> (Inr False, u, d)
      | Inr data \<Rightarrow>
          if PyStr operation \<noteq> dict_get data ''operation'' \<or> PyInt (uid u) \<noteq> dict_get data ''id''
          then (Inr False, u, d)
          else if operation = CONFIRM then
            (let u' = u\<lparr>confirmed := True\<rparr> in (Inr True, u', commit_user u' d))
          else if operation = RESET_PASSWORD then
            (case sp new_password u of
               Inl e \<Rightarrow> (Inl e, u, d)
             | Inr u' \<Rightarrow> (Inr True, u', commit_user u' d))
          else if operation = CHANGE_EMAIL then
            (let new_email = dict_get data ''new_email'' in
             if new_email = PyNone then (Inr False, u, d)
             else if query_by_email d new_email \<noteq> None then (Inr False, u, d)
             else (let u' = u\<lparr>email := new_email\<rparr> in (Inr True, u', commit_user u' d)))
          else (Inr False, u, d))"

declare validate_token.simps [simp del]

section \<open>Authorisation\<close>

text \<open>
  \<^verbatim>\<open>current_user\<close> is an object with a method \<^verbatim>\<open>can\<close> and a property \<^verbatim>\<open>is_admin\<close>. For a
  request with no login it is an instance of \<^verbatim>\<open>Guest\<close>
  (\<^verbatim>\<open>login_manager.anonymous_user = Guest\<close>).
\<close>

record principal =
  can :: "string \<Rightarrow> bool"
  is_admin :: bool

definition Guest :: principal where
  "Guest = \<lparr>can = (\<lambda>permission_name. False), is_admin = False\<rparr>"

text \<open>A decorated view either aborts the request with a status code or returns the view's result.\<close>

datatype 'a outcome = Abort nat | Returned 'a

definition permission_required ::
  "string \<Rightarrow> ('x \<Rightarrow> 'a) \<Rightarrow> principal \<Rightarrow> 'x \<Rightarrow> 'a outcome" where
  "permission_required permission_name func current_user args =
     (if \<not> can current_user permission_name then Abort 403 else Returned (func args))"

definition admin_required :: "('x \<Rightarrow> 'a) \<Rightarrow> principal \<Rightarrow> 'x \<Rightarrow> 'a outcome" where
  "admin_required func = permission_required ''ADMINISTER'' func"

section \<open>Safe redirects\<close>











section \<open>Notifications\<close>

text \<open>
  Modelled from the spec: the \<^verbatim>\<open>Notification\<close> model (\<^verbatim>\<open>photobook/models.py\<close>). The
  helpers call \<^verbatim>\<open>Notification(message=message, receiver=receiver)\<close>; the read flag takes
  the column's default, which the spec's Notification Store gives as
  \<^verbatim>\<open>isRead = false\<close>.
\<close>

definition Notification :: "string \<Rightarrow> user \<Rightarrow> notification" where
  "Notification m r = \<lparr>message = m, receiver = r, is_read = False\<rparr>"

text \<open>The three messages, as the \<^verbatim>\<open>%\<close> formatting builds them.\<close>

definition follow_message :: "(string \<Rightarrow> (string \<times> pyval) list \<Rightarrow> string) \<Rightarrow> user \<Rightarrow> string" where
  \<open>follow_message url_for follower =
     ''User <a href="'' @ url_for ''user.index'' [(''username'', PyStr (username follower))]
       @ ''">'' @ username follower @ ''</a> followed you.''\<close>

definition comment_message ::
  "(string \<Rightarrow> (string \<times> pyval) list \<Rightarrow> string) \<Rightarrow> int \<Rightarrow> int \<Rightarrow> string" where
  \<open>comment_message url_for photo_id page =
     ''<a href="'' @ url_for ''main.show_photo'' [(''photo_id'', PyInt photo_id), (''page'', PyInt page)]
       @ ''#comments">This photo</a> has new comment/reply.''\<close>

definition collect_message ::
  "(string \<Rightarrow> (string \<times> pyval) list \<Rightarrow> string) \<Rightarrow> user \<Rightarrow> int \<Rightarrow> string" where
  \<open>collect_message url_for collector photo_id =
     ''User <a href="'' @ url_for ''user.index'' [(''username'', PyStr (username collector))]
       @ ''">'' @ username collector @ ''</a> collected your <a href="''
       @ url_for ''main.show_photo'' [(''photo_id'', PyInt photo_id)] @ ''">photo</a>''\<close>

definition push_follow_notification ::
  "(string \<Rightarrow> (string \<times> pyval) list \<Rightarrow> string) \<Rightarrow> user \<Rightarrow> user \<Rightarrow> db \<Rightarrow> db" where
  "push_follow_notification url_for follower rcv d =
     (let msg = follow_message url_for follower;
          n = Notification msg rcv
      in session_commit (session_add n d))"

definition push_comment_notification ::
  "(string \<Rightarrow> (string \<times> pyval) list \<Rightarrow> string) \<Rightarrow> int \<Rightarrow> user \<Rightarrow> int \<Rightarrow> db \<Rightarrow> db" where
  "push_comment_notification url_for photo_id rcv page d =
     (let msg = comment_message url_for photo_id page;
          n = Notification msg rcv
      in session_commit (session_add n d))"

definition push_collect_notification ::
  "(string \<Rightarrow> (string \<times> pyval) list \<Rightarrow> string) \<Rightarrow> user \<Rightarrow> int \<Rightarrow> user \<Rightarrow> db \<Rightarrow> db" where
  "push_collect_notification url_for collector photo_id rcv d =
     (let msg = collect_message url_for collector photo_id;
          n = Notification msg rcv
      in session_commit (session_add n d))"

text \<open>
  A sequence of triggering events for one receiver, to state what a sequence of calls
  leaves: each event is one call of the helper for its kind.
\<close>

datatype event = Follow user | Comment int int | Collect user int

fun event_message :: "(string \<Rightarrow> (string \<times> pyval) list \<Rightarrow> string) \<Rightarrow> event \<Rightarrow> string" where
  "event_message url_for (Follow follower) = follow_message url_for follower"
| "event_message url_for (Comment photo_id page) = comment_message url_for photo_id page"
| "event_message url_for (Collect collector photo_id) = collect_message url_for collector photo_id"

fun push_event :: "(string \<Rightarrow> (string \<times> pyval) list \<Rightarrow> string) \<Rightarrow> user \<Rightarrow> event \<Rightarrow> db \<Rightarrow> db" where
  "push_event url_for rcv (Follow follower) d = push_follow_notification url_for follower rcv d"
| "push_event url_for rcv (Comment photo_id page) d =
     push_comment_notification url_for photo_id rcv page d"
| "push_event url_for rcv (Collect collector photo_id) d =
     push_collect_notification url_for collector photo_id rcv d"

definition push_events ::
  "(string \<Rightarrow> (string \<times> pyval) list \<Rightarrow> string) \<Rightarrow> user \<Rightarrow> event list \<Rightarrow> db \<Rightarrow> db" where
  "push_events url_for rcv evs d = fold (push_event url_for rcv) evs d"

section \<open>Concrete objects\<close>

text \<open>Two users, a database that holds them, and a URL builder, to evaluate the helpers on.\<close>

definition alice :: user where
  "alice = \<lparr>uid = 1, username = ''alice'', confirmed = False, password_hash = ''x'',
            email = PyStr ''alice@example.com''\<rparr>"

definition bob :: user where
  "bob = \<lparr>uid = 2, username = ''bob'', confirmed = True, password_hash = ''y'',
          email = PyStr ''bob@example.com''\<rparr>"

definition db0 :: db where
  "db0 = \<lparr>directory = [alice, bob], notifications = [], pending = [], commits = 0\<rparr>"

definition url0 :: "string \<Rightarrow> (string \<times> pyval) list \<Rightarrow> string" where
  "url0 endpoint values = ''/'' @ endpoint"



section \<open>What the serializer and the dictionary give\<close>

lemma loads_generate_token:
  "loads (Serializer key None) now (generate_token key iat u operation expire_in kwargs) =
     (let e = iat + (case expire_in of None \<Rightarrow> DEFAULT_EXPIRES_IN | Some n \<Rightarrow> n) in
      if e < 0 then Inl BadHeader
      else if e < now then Inl SignatureExpired
      else Inr (dict_update [''id'' \<mapsto> PyInt (uid u), ''operation'' \<mapsto> PyStr operation] kwargs))"
  by (simp add: loads_def generate_token_def dumps_def Serializer_def Let_def)

lemma payload_generate_token:
  "payload (generate_token key iat u operation expire_in kwargs) =
     dict_update [''id'' \<mapsto> PyInt (uid u), ''operation'' \<mapsto> PyStr operation] kwargs"
  by (simp add: generate_token_def dumps_def Let_def)

lemma loads_payload: "loads s now tok = Inr data \<Longrightarrow> data = payload tok"
  by (auto simp add: loads_def split: if_splits)

lemma validate_token_rejected:
  "loads (Serializer key None) now tok = Inl b \<Longrightarrow>
   validate_token key now sp d u tok operation new_password = (Inr False, u, d)"
  by (simp add: validate_token.simps)

lemma validate_token_mismatch:
  "loads (Serializer key None) now tok = Inr data \<Longrightarrow>
   PyStr operation \<noteq> dict_get data ''operation'' \<or> PyInt (uid u) \<noteq> dict_get data ''id'' \<Longrightarrow>
   validate_token key now sp d u tok operation new_password = (Inr False, u, d)"
  by (auto simp add: validate_token.simps)

lemma dict_get_minted_id:
  "kwargs ''id'' = None \<Longrightarrow>
   dict_get (dict_update [''id'' \<mapsto> PyInt i, ''operation'' \<mapsto> PyStr operation] kwargs) ''id'' = PyInt i"
  by (simp add: dict_get_def dict_update_def map_add_def)

lemma dict_get_minted_operation:
  "kwargs ''operation'' = None \<Longrightarrow>
   dict_get (dict_update [''id'' \<mapsto> PyInt i, ''operation'' \<mapsto> PyStr operation] kwargs) ''operation''
     = PyStr operation"
  by (simp add: dict_get_def dict_update_def map_add_def)

lemma dict_get_minted_extra:
  "kwargs k = Some v \<Longrightarrow>
   dict_get (dict_update [''id'' \<mapsto> PyInt i, ''operation'' \<mapsto> PyStr operation] kwargs) k = v"
  by (simp add: dict_get_def dict_update_def map_add_def)

lemma validate_token_any_mismatch:
  "PyStr operation \<noteq> dict_get (payload tok) ''operation'' \<or> PyInt (uid u) \<noteq> dict_get (payload tok) ''id''
   \<Longrightarrow> validate_token key now sp d u tok operation new_password = (Inr False, u, d)"
proof (cases "loads (Serializer key None) now tok")
  case (Inl b)
  then show ?thesis by (rule validate_token_rejected)
next
  case (Inr data)
  assume m: "PyStr operation \<noteq> dict_get (payload tok) ''operation'' \<or> PyInt (uid u) \<noteq> dict_get (payload tok) ''id''"
  from Inr have "data = payload tok" by (rule loads_payload)
  with m Inr show ?thesis by (simp add: validate_token_mismatch)
qed

lemma dict_get_minted_other:
  "k \<noteq> ''id'' \<Longrightarrow> k \<noteq> ''operation'' \<Longrightarrow>
   dict_get (dict_update [''id'' \<mapsto> PyInt i, ''operation'' \<mapsto> PyStr operation] kwargs) k = dict_get kwargs k"
  by (simp add: dict_get_def dict_update_def map_add_def split: option.splits)

lemma loads_unexpired:
  "0 < iat + ttl \<Longrightarrow> now \<le> iat + ttl \<Longrightarrow>
   loads (Serializer key None) now (generate_token key iat u operation (Some ttl) kwargs) =
     Inr (dict_update [''id'' \<mapsto> PyInt (uid u), ''operation'' \<mapsto> PyStr operation] kwargs)"
  by (simp add: loads_generate_token)

lemma dict_get_empty: "dict_get Map.empty k = PyNone"
  by (simp add: dict_get_def)

lemma query_by_email_None: "(query_by_email d e = None) = (\<not> (\<exists>r \<in> set (directory d). email r = e))"
  by (auto simp add: query_by_email_def find_None_iff)

section \<open>Outcomes of validation\<close>

lemma validate_token_failure_frame:
  "validate_token key now sp d u tok operation new_password = (Inr False, u', d') \<Longrightarrow> u' = u \<and> d' = d"
  by (auto simp add: validate_token.simps Let_def split: sum.splits if_splits)

lemma validate_token_raise_frame:
  "validate_token key now sp d u tok operation new_password = (Inl e, u', d') \<Longrightarrow>
   u' = u \<and> d' = d \<and> operation = RESET_PASSWORD \<and> sp new_password u = Inl e"
  by (auto simp add: validate_token.simps Let_def split: sum.splits if_splits)

lemma validate_token_success:
  "validate_token key now sp d u tok operation new_password = (Inr True, u', d') \<Longrightarrow>
   d' = commit_user u' d \<and>
   (operation = CONFIRM \<and> u' = u\<lparr>confirmed := True\<rparr>
    \<or> operation = RESET_PASSWORD \<and> sp new_password u = Inr u'
    \<or> operation = CHANGE_EMAIL \<and> u' = u\<lparr>email := dict_get (payload tok) ''new_email''\<rparr>)"
  by (auto simp add: validate_token.simps Let_def dest: loads_payload split: sum.splits if_splits)

lemma commits_commit_user: "commits (commit_user u d) = Suc (commits d)"
  by (simp add: commit_user_def session_commit_def)

lemma directory_commit_user:
  "directory (commit_user u d) = map (\<lambda>r. if uid r = uid u then u else r) (directory d)"
  by (simp add: commit_user_def session_commit_def)

lemma confirm_eval:
  "validate_token ''secret string'' 1000 (set_password id) db0 alice
     (generate_token ''secret string'' 1000 alice CONFIRM (Some 3600) Map.empty) CONFIRM None
   = (Inr True, alice\<lparr>confirmed := True\<rparr>, commit_user (alice\<lparr>confirmed := True\<rparr>) db0)"
  by (simp add: validate_token.simps loads_generate_token dict_get_minted_id dict_get_minted_operation
      Let_def)

lemma expired_eval:
  "validate_token ''secret string'' 4601 (set_password id) db0 alice
     (generate_token ''secret string'' 1000 alice CONFIRM (Some 3600) Map.empty) CONFIRM None
   = (Inr False, alice, db0)"
  by (simp add: validate_token.simps loads_generate_token Let_def)

section \<open>A token is bound to its pair\<close>

text \<open>
  C6. A token is good only for the pair of user and operation it carries. For every token
  that \<^verbatim>\<open>generate_token\<close> issues: when the operation given to \<^verbatim>\<open>validate_token\<close> is
  not the operation in the token, or the id of the user given is not the id in the token,
  the call returns \<^verbatim>\<open>False\<close> and leaves the user object and the database as they were,
  at every validation time, before or after the expiry. The pair in the token is the
  user and the operation given to \<^verbatim>\<open>generate_token\<close> whenever the extra payload binds
  neither \<^verbatim>\<open>id\<close> nor \<^verbatim>\<open>operation\<close> (Python refuses a keyword \<^verbatim>\<open>operation\<close> in
  \<^verbatim>\<open>**kwargs\<close>, since it is a named parameter). The function returns the one value
  \<^verbatim>\<open>False\<close> for every failure; the spec's \<^verbatim>\<open>TokenInvalid\<close> is that value.
\<close>

theorem validate_token_pair_mismatch:
  "(PyStr operation' \<noteq> dict_get (payload (generate_token key iat u operation expire_in kwargs)) ''operation''
      \<or> PyInt (uid u') \<noteq> dict_get (payload (generate_token key iat u operation expire_in kwargs)) ''id''
    \<longrightarrow> validate_token key now sp d u' (generate_token key iat u operation expire_in kwargs)
          operation' new_password = (Inr False, u', d))
   \<and> (kwargs ''id'' = None \<and> kwargs ''operation'' = None \<and> (operation' \<noteq> operation \<or> uid u' \<noteq> uid u)
    \<longrightarrow> validate_token key now sp d u' (generate_token key iat u operation expire_in kwargs)
          operation' new_password = (Inr False, u', d))"
proof (intro conjI impI)
  assume "PyStr operation' \<noteq> dict_get (payload (generate_token key iat u operation expire_in kwargs)) ''operation''
      \<or> PyInt (uid u') \<noteq> dict_get (payload (generate_token key iat u operation expire_in kwargs)) ''id''"
  then show "validate_token key now sp d u' (generate_token key iat u operation expire_in kwargs)
          operation' new_password = (Inr False, u', d)"
    by (rule validate_token_any_mismatch)
next
  assume a: "kwargs ''id'' = None \<and> kwargs ''operation'' = None \<and> (operation' \<noteq> operation \<or> uid u' \<noteq> uid u)"
  then have "PyStr operation' \<noteq> dict_get (payload (generate_token key iat u operation expire_in kwargs)) ''operation''
      \<or> PyInt (uid u') \<noteq> dict_get (payload (generate_token key iat u operation expire_in kwargs)) ''id''"
    by (auto simp add: payload_generate_token dict_get_minted_id dict_get_minted_operation)
  then show "validate_token key now sp d u' (generate_token key iat u operation expire_in kwargs)
          operation' new_password = (Inr False, u', d)"
    by (rule validate_token_any_mismatch)
qed

theorem validate_token_pair_mismatch_witness:
  "validate_token ''secret string'' 5000 (set_password id) db0 bob
     (generate_token ''secret string'' 1000 alice CONFIRM (Some 3600) Map.empty) CONFIRM None
     = (Inr False, bob, db0)
   \<and> validate_token ''secret string'' 1000 (set_password id) db0 alice
     (generate_token ''secret string'' 1000 alice CONFIRM (Some 3600) Map.empty) RESET_PASSWORD (Some ''pw'')
     = (Inr False, alice, db0)"
  using validate_token_pair_mismatch [of CONFIRM "''secret string''" 1000 alice CONFIRM "Some 3600" Map.empty
      bob 5000 "set_password id" db0 None]
    validate_token_pair_mismatch [of RESET_PASSWORD "''secret string''" 1000 alice CONFIRM "Some 3600" Map.empty
      alice 1000 "set_password id" db0 "Some ''pw''"]
  by (simp add: alice_def bob_def CONFIRM_def RESET_PASSWORD_def)

section \<open>Validation is all or nothing\<close>

text \<open>
  C2. For every input of \<^verbatim>\<open>validate_token\<close>: when it returns \<^verbatim>\<open>False\<close>, the user object
  and the database (the user rows, the session, the number of commits) are as before the
  call; when it returns \<^verbatim>\<open>True\<close>, the user object differs from the one given by the one
  mutation of the operation (the confirmed flag set, the password set by
  \<^verbatim>\<open>set_password\<close>, or the email replaced by the token's \<^verbatim>\<open>new_email\<close>), the database is
  the old one with that user's row written and one commit more. An exception raised by
  \<^verbatim>\<open>set_password\<close> leaves the function before anything is committed.
\<close>

theorem validate_token_all_or_nothing:
  assumes "validate_token key now sp d u tok operation new_password = (r, u', d')"
  shows "(r = Inr False \<longrightarrow> u' = u \<and> d' = d)
    \<and> (r = Inr True \<longrightarrow>
          d' = commit_user u' d \<and> commits d' = Suc (commits d)
          \<and> directory d' = map (\<lambda>row. if uid row = uid u' then u' else row) (directory d)
          \<and> (operation = CONFIRM \<and> u' = u\<lparr>confirmed := True\<rparr>
             \<or> operation = RESET_PASSWORD \<and> sp new_password u = Inr u'
             \<or> operation = CHANGE_EMAIL \<and> u' = u\<lparr>email := dict_get (payload tok) ''new_email''\<rparr>))
    \<and> (\<forall>e. r = Inl e \<longrightarrow> u' = u \<and> d' = d)"
proof (intro conjI impI allI)
  assume "r = Inr False"
  with assms have "u' = u \<and> d' = d" by (simp add: validate_token_failure_frame)
  then show "u' = u" and "d' = d" by simp_all
next
  assume "r = Inr True"
  with assms have s: "d' = commit_user u' d \<and>
   (operation = CONFIRM \<and> u' = u\<lparr>confirmed := True\<rparr>
    \<or> operation = RESET_PASSWORD \<and> sp new_password u = Inr u'
    \<or> operation = CHANGE_EMAIL \<and> u' = u\<lparr>email := dict_get (payload tok) ''new_email''\<rparr>)"
    by (simp add: validate_token_success)
  then show "d' = commit_user u' d" by simp
  from s show "commits d' = Suc (commits d)" by (simp add: commits_commit_user)
  from s show "directory d' = map (\<lambda>row. if uid row = uid u' then u' else row) (directory d)"
    by (simp add: directory_commit_user)
  from s show "operation = CONFIRM \<and> u' = u\<lparr>confirmed := True\<rparr>
    \<or> operation = RESET_PASSWORD \<and> sp new_password u = Inr u'
    \<or> operation = CHANGE_EMAIL \<and> u' = u\<lparr>email := dict_get (payload tok) ''new_email''\<rparr>" by simp
next
  fix e assume "r = Inl e"
  with assms have "u' = u \<and> d' = d \<and> operation = RESET_PASSWORD \<and> sp new_password u = Inl e"
    by (simp add: validate_token_raise_frame)
  then show "u' = u" and "d' = d" by simp_all
qed

theorem validate_token_all_or_nothing_witness:
  "commits (commit_user (alice\<lparr>confirmed := True\<rparr>) db0) = Suc (commits db0)
   \<and> directory (commit_user (alice\<lparr>confirmed := True\<rparr>) db0) = [alice\<lparr>confirmed := True\<rparr>, bob]
   \<and> validate_token ''secret string'' 1000 (set_password id) db0 alice
       (generate_token ''secret string'' 1000 alice CONFIRM (Some 3600) Map.empty) CONFIRM None
      = (Inr True, alice\<lparr>confirmed := True\<rparr>, commit_user (alice\<lparr>confirmed := True\<rparr>) db0)
   \<and> validate_token ''secret string'' 4601 (set_password id) db0 alice
       (generate_token ''secret string'' 1000 alice CONFIRM (Some 3600) Map.empty) CONFIRM None
      = (Inr False, alice, db0)"
  using validate_token_all_or_nothing [OF confirm_eval] validate_token_all_or_nothing [OF expired_eval]
    confirm_eval expired_eval
  by (simp add: alice_def bob_def db0_def)

section \<open>Round trip and expiry\<close>

text \<open>
  C1, as the claim states it, fails on the code. Validation before the expiry does not
  succeed for every operation and extra payload: at the moment of issuance, a
  \<^verbatim>\<open>change-email\<close> token issued without \<^verbatim>\<open>new_email\<close> is refused, and so is a
  \<^verbatim>\<open>confirm\<close> token whose extra payload binds \<^verbatim>\<open>id\<close> to another user's id. And a token
  is still accepted at the instant \<^verbatim>\<open>issuedAt + ttl\<close>: the serializer raises
  \<^verbatim>\<open>SignatureExpired\<close> only when \<^verbatim>\<open>exp < now\<close>.
\<close>

theorem round_trip_counterexample:
  "(1000::int) < 1000 + 3600
   \<and> validate_token ''secret string'' 1000 (set_password id) db0 alice
       (generate_token ''secret string'' 1000 alice CHANGE_EMAIL (Some 3600) Map.empty) CHANGE_EMAIL None
      = (Inr False, alice, db0)
   \<and> validate_token ''secret string'' 1000 (set_password id) db0 alice
       (generate_token ''secret string'' 1000 alice CONFIRM (Some 3600) [''id'' \<mapsto> PyInt 2]) CONFIRM None
      = (Inr False, alice, db0)
   \<and> (1000::int) + 3600 \<le> 4600
   \<and> validate_token ''secret string'' 4600 (set_password id) db0 alice
       (generate_token ''secret string'' 1000 alice CONFIRM (Some 3600) Map.empty) CONFIRM None
      = (Inr True, alice\<lparr>confirmed := True\<rparr>, commit_user (alice\<lparr>confirmed := True\<rparr>) db0)"
  by (simp add: validate_token.simps loads_generate_token Let_def CHANGE_EMAIL_def CONFIRM_def
      RESET_PASSWORD_def dict_get_def dict_update_def alice_def)

text \<open>
  C1, amended. Let a token be issued at \<open>iat\<close> with the ttl \<open>ttl\<close> (its expiry
  \<open>iat + ttl\<close> a positive Unix time), the extra payload binding neither \<^verbatim>\<open>id\<close> nor
  \<^verbatim>\<open>operation\<close>, and let the operation's own checks pass: the operation is \<^verbatim>\<open>confirm\<close>;
  or \<^verbatim>\<open>reset-password\<close> and \<^verbatim>\<open>set_password\<close> accepts the new password; or
  \<^verbatim>\<open>change-email\<close> and the extra payload carries a \<^verbatim>\<open>new_email\<close> that no user row has.
  Validated for the same user and operation, the token is accepted while
  \<open>now \<le> iat + ttl\<close>, and refused with \<^verbatim>\<open>False\<close>, nothing changed, once
  \<open>iat + ttl < now\<close>.
\<close>

theorem generate_validate_round_trip:
  assumes "0 < iat + ttl" and "kwargs ''id'' = None" and "kwargs ''operation'' = None"
    and "operation = CONFIRM
         \<or> operation = RESET_PASSWORD \<and> (\<exists>u'. sp new_password u = Inr u')
         \<or> operation = CHANGE_EMAIL \<and> dict_get kwargs ''new_email'' \<noteq> PyNone
             \<and> query_by_email d (dict_get kwargs ''new_email'') = None"
  shows "(now \<le> iat + ttl \<longrightarrow>
            fst (validate_token key now sp d u (generate_token key iat u operation (Some ttl) kwargs)
                   operation new_password) = Inr True)
       \<and> (iat + ttl < now \<longrightarrow>
            validate_token key now sp d u (generate_token key iat u operation (Some ttl) kwargs)
              operation new_password = (Inr False, u, d))"
proof (intro conjI impI)
  assume "iat + ttl < now"
  with assms(1) have "loads (Serializer key None) now (generate_token key iat u operation (Some ttl) kwargs)
      = Inl SignatureExpired"
    by (simp add: loads_generate_token)
  then show "validate_token key now sp d u (generate_token key iat u operation (Some ttl) kwargs)
              operation new_password = (Inr False, u, d)"
    by (rule validate_token_rejected)
next
  assume le: "now \<le> iat + ttl"
  note l = loads_unexpired [OF assms(1) le]
  have i: "\<And>i operation. dict_get (dict_update [''id'' \<mapsto> PyInt i, ''operation'' \<mapsto> PyStr operation] kwargs)
      ''id'' = PyInt i"
    using assms(2) by (rule dict_get_minted_id)
  have o: "\<And>i operation. dict_get (dict_update [''id'' \<mapsto> PyInt i, ''operation'' \<mapsto> PyStr operation] kwargs)
      ''operation'' = PyStr operation"
    using assms(3) by (rule dict_get_minted_operation)
  have ne: "\<And>i operation. dict_get (dict_update [''id'' \<mapsto> PyInt i, ''operation'' \<mapsto> PyStr operation] kwargs)
      ''new_email'' = dict_get kwargs ''new_email''"
    by (rule dict_get_minted_other) simp_all
  let ?v = "validate_token key now sp d u (generate_token key iat u operation (Some ttl) kwargs)
                   operation new_password"
  from assms(4) consider
      (confirm) "operation = CONFIRM"
    | (reset) u' where "operation = RESET_PASSWORD" and "sp new_password u = Inr u'"
    | (change) "operation = CHANGE_EMAIL" and "dict_get kwargs ''new_email'' \<noteq> PyNone"
        and "query_by_email d (dict_get kwargs ''new_email'') = None"
    by auto
  then show "fst ?v = Inr True"
  proof cases
    case confirm
    then show ?thesis by (simp add: validate_token.simps l i o Let_def)
  next
    case reset
    then show ?thesis
      by (simp add: validate_token.simps l i o Let_def CONFIRM_def RESET_PASSWORD_def)
  next
    case change
    then show ?thesis
      by (simp add: validate_token.simps l i o ne Let_def CONFIRM_def RESET_PASSWORD_def CHANGE_EMAIL_def)
  qed
qed

theorem generate_validate_round_trip_witness:
  "fst (validate_token ''secret string'' 4600 (set_password id) db0 alice
       (generate_token ''secret string'' 1000 alice CONFIRM (Some 3600) Map.empty) CONFIRM None) = Inr True
   \<and> validate_token ''secret string'' 4601 (set_password id) db0 alice
       (generate_token ''secret string'' 1000 alice CONFIRM (Some 3600) Map.empty) CONFIRM None
      = (Inr False, alice, db0)
   \<and> fst (validate_token ''secret string'' 2000 (set_password id) db0 alice
       (generate_token ''secret string'' 1000 alice RESET_PASSWORD (Some 3600) Map.empty)
       RESET_PASSWORD (Some ''p@ss2'')) = Inr True
   \<and> fst (validate_token ''secret string'' 2000 (set_password id) db0 alice
       (generate_token ''secret string'' 1000 alice CHANGE_EMAIL (Some 3600)
          [''new_email'' \<mapsto> PyStr ''a@b.com'']) CHANGE_EMAIL None) = Inr True"
  using generate_validate_round_trip [of 1000 3600 Map.empty CONFIRM "set_password id" None alice db0
      4600 "''secret string''"]
    generate_validate_round_trip [of 1000 3600 Map.empty CONFIRM "set_password id" None alice db0
      4601 "''secret string''"]
    generate_validate_round_trip [of 1000 3600 Map.empty RESET_PASSWORD "set_password id" "Some ''p@ss2''"
      alice db0 2000 "''secret string''"]
    generate_validate_round_trip [of 1000 3600 "[''new_email'' \<mapsto> PyStr ''a@b.com'']" CHANGE_EMAIL
      "set_password id" None alice db0 2000 "''secret string''"]
  by (simp add: set_password_def dict_get_def query_by_email_def db0_def alice_def bob_def)

section \<open>Changing the email\<close>

text \<open>
  C3, as the claim states it, fails on the code: the uniqueness check asks whether any
  user row has the proposed email, not whether a different user has it. A user who asks
  for the address the account already has is refused, though no other user owns it.
\<close>

theorem change_email_counterexample:
  "[r \<leftarrow> directory db0. email r = PyStr ''alice@example.com'' \<and> uid r \<noteq> uid alice] = []
   \<and> validate_token ''secret string'' 1000 (set_password id) db0 alice
       (generate_token ''secret string'' 1000 alice CHANGE_EMAIL (Some 3600)
          [''new_email'' \<mapsto> PyStr ''alice@example.com'']) CHANGE_EMAIL None
      = (Inr False, alice, db0)"
  by (simp add: validate_token.simps loads_generate_token Let_def CHANGE_EMAIL_def CONFIRM_def
      RESET_PASSWORD_def dict_get_def dict_update_def query_by_email_def db0_def alice_def bob_def)

text \<open>
  C3, amended. For an unexpired \<^verbatim>\<open>change-email\<close> token that carries a \<^verbatim>\<open>new_email\<close>
  (the extra payload binding neither \<^verbatim>\<open>id\<close> nor \<^verbatim>\<open>operation\<close>), validated for the
  user it was issued to: \<^verbatim>\<open>validate_token\<close> returns \<^verbatim>\<open>False\<close>, nothing changed, exactly
  when some user row, the subject's own included, already has the proposed email; when
  no row has it, the call returns \<^verbatim>\<open>True\<close>, the user's email is the new one and the row
  is committed. The failure is the value \<^verbatim>\<open>False\<close> that every other failure returns;
  the code has no separate \<^verbatim>\<open>ConflictingState\<close>.
\<close>

theorem validate_token_change_email:
  assumes "0 < iat + ttl" and "now \<le> iat + ttl"
    and "kwargs ''id'' = None" and "kwargs ''operation'' = None"
    and "kwargs ''new_email'' = Some e" and "e \<noteq> PyNone"
  shows "validate_token key now sp d u (generate_token key iat u CHANGE_EMAIL (Some ttl) kwargs)
           CHANGE_EMAIL new_password =
         (if \<exists>r \<in> set (directory d). email r = e then (Inr False, u, d)
          else (Inr True, u\<lparr>email := e\<rparr>, commit_user (u\<lparr>email := e\<rparr>) d))"
proof -
  note l = loads_unexpired [OF assms(1) assms(2)]
  have i: "\<And>i operation. dict_get (dict_update [''id'' \<mapsto> PyInt i, ''operation'' \<mapsto> PyStr operation] kwargs)
      ''id'' = PyInt i"
    using assms(3) by (rule dict_get_minted_id)
  have o: "\<And>i operation. dict_get (dict_update [''id'' \<mapsto> PyInt i, ''operation'' \<mapsto> PyStr operation] kwargs)
      ''operation'' = PyStr operation"
    using assms(4) by (rule dict_get_minted_operation)
  have ne: "\<And>i operation. dict_get (dict_update [''id'' \<mapsto> PyInt i, ''operation'' \<mapsto> PyStr operation] kwargs)
      ''new_email'' = e"
    using assms(5) by (rule dict_get_minted_extra)
  show ?thesis
    using assms(6)
    by (simp add: validate_token.simps l i o ne Let_def query_by_email_None
        CONFIRM_def RESET_PASSWORD_def CHANGE_EMAIL_def)
qed

theorem validate_token_change_email_witness:
  "validate_token ''secret string'' 2000 (set_password id) db0 alice
       (generate_token ''secret string'' 1000 alice CHANGE_EMAIL (Some 3600)
          [''new_email'' \<mapsto> PyStr ''a@b.com'']) CHANGE_EMAIL None
      = (Inr True, alice\<lparr>email := PyStr ''a@b.com''\<rparr>, commit_user (alice\<lparr>email := PyStr ''a@b.com''\<rparr>) db0)
   \<and> directory (commit_user (alice\<lparr>email := PyStr ''a@b.com''\<rparr>) db0) = [alice\<lparr>email := PyStr ''a@b.com''\<rparr>, bob]
   \<and> validate_token ''secret string'' 2000 (set_password id) db0 alice
       (generate_token ''secret string'' 1000 alice CHANGE_EMAIL (Some 3600)
          [''new_email'' \<mapsto> PyStr ''bob@example.com'']) CHANGE_EMAIL None
      = (Inr False, alice, db0)"
  using validate_token_change_email [of 1000 3600 2000 "[''new_email'' \<mapsto> PyStr ''a@b.com'']"
      "PyStr ''a@b.com''" "''secret string''" "set_password id" db0 alice None]
    validate_token_change_email [of 1000 3600 2000 "[''new_email'' \<mapsto> PyStr ''bob@example.com'']"
      "PyStr ''bob@example.com''" "''secret string''" "set_password id" db0 alice None]
  by (simp add: db0_def alice_def bob_def directory_commit_user)

section \<open>Issuing without a ttl\<close>

text \<open>
  C5, as the claim states it, fails on the code: \<^verbatim>\<open>generate_token\<close> hands
  \<^verbatim>\<open>expire_in=None\<close> to the serializer, whose constructor then takes its default of 3600
  seconds. A token issued at 1000 without a ttl is accepted at 4600 and refused as
  expired at 4601.
\<close>

theorem no_expiry_counterexample:
  "loads (Serializer ''secret string'' None) 4601
       (generate_token ''secret string'' 1000 alice CONFIRM None Map.empty) = Inl SignatureExpired
   \<and> validate_token ''secret string'' 4601 (set_password id) db0 alice
       (generate_token ''secret string'' 1000 alice CONFIRM None Map.empty) CONFIRM None
      = (Inr False, alice, db0)
   \<and> validate_token ''secret string'' 4600 (set_password id) db0 alice
       (generate_token ''secret string'' 1000 alice CONFIRM None Map.empty) CONFIRM None
      = (Inr True, alice\<lparr>confirmed := True\<rparr>, commit_user (alice\<lparr>confirmed := True\<rparr>) db0)"
  by (simp add: validate_token.simps loads_generate_token Let_def DEFAULT_EXPIRES_IN_def
      dict_get_minted_id dict_get_minted_operation)

text \<open>
  C5, amended. A token issued without a ttl expires 3600 seconds after its issuance:
  its header carries \<open>exp = iat + 3600\<close>; for an issuance at a positive Unix time the
  serializer reports it expired exactly when \<open>iat + 3600 < now\<close> and returns its
  payload while \<open>now \<le> iat + 3600\<close>; and once \<open>iat + 3600 < now\<close>,
  \<^verbatim>\<open>validate_token\<close> returns \<^verbatim>\<open>False\<close> for every user and operation, nothing changed.
\<close>

theorem generate_token_default_expiry:
  "header_exp (generate_token key iat u operation None kwargs) = iat + 3600
   \<and> (0 < iat \<longrightarrow>
        (loads (Serializer key None) now (generate_token key iat u operation None kwargs)
           = Inl SignatureExpired) = (iat + 3600 < now))
   \<and> (0 < iat \<and> now \<le> iat + 3600 \<longrightarrow>
        loads (Serializer key None) now (generate_token key iat u operation None kwargs)
           = Inr (payload (generate_token key iat u operation None kwargs)))
   \<and> (iat + 3600 < now \<longrightarrow>
        validate_token key now sp d u' (generate_token key iat u operation None kwargs)
          operation' new_password = (Inr False, u', d))"
proof (intro conjI impI)
  show "header_exp (generate_token key iat u operation None kwargs) = iat + 3600"
    by (simp add: generate_token_def dumps_def Serializer_def DEFAULT_EXPIRES_IN_def Let_def)
next
  assume "0 < iat"
  then show "(loads (Serializer key None) now (generate_token key iat u operation None kwargs)
           = Inl SignatureExpired) = (iat + 3600 < now)"
    by (simp add: loads_generate_token DEFAULT_EXPIRES_IN_def)
next
  assume "0 < iat \<and> now \<le> iat + 3600"
  then show "loads (Serializer key None) now (generate_token key iat u operation None kwargs)
           = Inr (payload (generate_token key iat u operation None kwargs))"
    by (simp add: loads_generate_token payload_generate_token DEFAULT_EXPIRES_IN_def)
next
  assume "iat + 3600 < now"
  then have "\<exists>b. loads (Serializer key None) now (generate_token key iat u operation None kwargs) = Inl b"
    by (simp add: loads_generate_token DEFAULT_EXPIRES_IN_def Let_def)
  then show "validate_token key now sp d u' (generate_token key iat u operation None kwargs)
          operation' new_password = (Inr False, u', d)"
    by (auto simp add: validate_token_rejected)
qed

theorem generate_token_default_expiry_witness:
  "loads (Serializer ''secret string'' None) 4601
       (generate_token ''secret string'' 1000 alice CONFIRM None Map.empty) = Inl SignatureExpired
   \<and> loads (Serializer ''secret string'' None) 4600
       (generate_token ''secret string'' 1000 alice CONFIRM None Map.empty)
      = Inr (payload (generate_token ''secret string'' 1000 alice CONFIRM None Map.empty))
   \<and> validate_token ''secret string'' 4601 (set_password id) db0 alice
       (generate_token ''secret string'' 1000 alice CONFIRM None Map.empty) CONFIRM None
      = (Inr False, alice, db0)"
  using generate_token_default_expiry [of "''secret string''" 1000 alice CONFIRM Map.empty 4601
      "set_password id" db0 alice CONFIRM None]
    generate_token_default_expiry [of "''secret string''" 1000 alice CONFIRM Map.empty 4600
      "set_password id" db0 alice CONFIRM None]
  by simp

section \<open>Resetting the password without a password\<close>

text \<open>
  C4. The claim asks that \<^verbatim>\<open>validate_token\<close>, called for \<^verbatim>\<open>reset-password\<close> without a
  new password, return a failure and change nothing. The code has no such check: the
  \<^verbatim>\<open>reset-password\<close> branch calls \<^verbatim>\<open>user.set_password(new_password)\<close> with \<^verbatim>\<open>None\<close>.
  Evaluated on an unexpired token for the right user, whatever \<^verbatim>\<open>set_password\<close> does:
  either its exception leaves \<^verbatim>\<open>validate_token\<close>, or the user it returns is committed
  and the result is \<^verbatim>\<open>True\<close>; the result is never \<^verbatim>\<open>False\<close>. With the \<open>set_password\<close>
  above the call raises. The sibling branch does guard its required field: a
  \<^verbatim>\<open>change-email\<close> token without \<^verbatim>\<open>new_email\<close> returns \<^verbatim>\<open>False\<close>.
\<close>

theorem reset_password_without_password:
  "validate_token ''secret string'' 1000 sp db0 alice
     (generate_token ''secret string'' 1000 alice RESET_PASSWORD (Some 3600) Map.empty)
     RESET_PASSWORD None
   = (case sp None alice of
        Inl e \<Rightarrow> (Inl e, alice, db0)
      | Inr u' \<Rightarrow> (Inr True, u', commit_user u' db0))
   \<and> validate_token ''secret string'' 1000 sp db0 alice
     (generate_token ''secret string'' 1000 alice RESET_PASSWORD (Some 3600) Map.empty)
     RESET_PASSWORD None \<noteq> (Inr False, alice, db0)
   \<and> validate_token ''secret string'' 1000 (set_password h) db0 alice
     (generate_token ''secret string'' 1000 alice RESET_PASSWORD (Some 3600) Map.empty)
     RESET_PASSWORD None = (Inl TypeError, alice, db0)
   \<and> validate_token ''secret string'' 1000 sp db0 alice
     (generate_token ''secret string'' 1000 alice CHANGE_EMAIL (Some 3600) Map.empty)
     CHANGE_EMAIL None = (Inr False, alice, db0)"
proof -
  have a: "\<And>sp. validate_token ''secret string'' 1000 sp db0 alice
     (generate_token ''secret string'' 1000 alice RESET_PASSWORD (Some 3600) Map.empty)
     RESET_PASSWORD None
   = (case sp None alice of
        Inl e \<Rightarrow> (Inl e, alice, db0)
      | Inr u' \<Rightarrow> (Inr True, u', commit_user u' db0))"
    by (simp add: validate_token.simps loads_generate_token Let_def dict_get_minted_id
        dict_get_minted_operation CONFIRM_def RESET_PASSWORD_def)
  have b: "validate_token ''secret string'' 1000 sp db0 alice
     (generate_token ''secret string'' 1000 alice RESET_PASSWORD (Some 3600) Map.empty)
     RESET_PASSWORD None \<noteq> (Inr False, alice, db0)"
    by (simp add: a split: sum.splits)
  have c: "validate_token ''secret string'' 1000 (set_password h) db0 alice
     (generate_token ''secret string'' 1000 alice RESET_PASSWORD (Some 3600) Map.empty)
     RESET_PASSWORD None = (Inl TypeError, alice, db0)"
    by (simp add: a set_password_def)
  have d: "validate_token ''secret string'' 1000 sp db0 alice
     (generate_token ''secret string'' 1000 alice CHANGE_EMAIL (Some 3600) Map.empty)
     CHANGE_EMAIL None = (Inr False, alice, db0)"
    by (simp add: validate_token.simps loads_generate_token Let_def dict_get_minted_id
        dict_get_minted_operation dict_get_minted_other dict_get_empty
        CONFIRM_def RESET_PASSWORD_def CHANGE_EMAIL_def)
  from a b c d show ?thesis by blast
qed

section \<open>Redirecting back\<close>







section \<open>Emitting notifications\<close>

lemma push_follow_notification_rows:
  "push_follow_notification url_for follower rcv d =
     d\<lparr>notifications := notifications d @ pending d @ [Notification (follow_message url_for follower) rcv],
       pending := [], commits := Suc (commits d)\<rparr>"
  by (simp add: push_follow_notification_def session_add_def session_commit_def Let_def)

lemma push_comment_notification_rows:
  "push_comment_notification url_for photo_id rcv page d =
     d\<lparr>notifications := notifications d @ pending d @ [Notification (comment_message url_for photo_id page) rcv],
       pending := [], commits := Suc (commits d)\<rparr>"
  by (simp add: push_comment_notification_def session_add_def session_commit_def Let_def)

lemma push_collect_notification_rows:
  "push_collect_notification url_for collector photo_id rcv d =
     d\<lparr>notifications := notifications d @ pending d
         @ [Notification (collect_message url_for collector photo_id) rcv],
       pending := [], commits := Suc (commits d)\<rparr>"
  by (simp add: push_collect_notification_def session_add_def session_commit_def Let_def)

lemma push_event_rows:
  "push_event url_for rcv ev d =
     d\<lparr>notifications := notifications d @ pending d @ [Notification (event_message url_for ev) rcv],
       pending := [], commits := Suc (commits d)\<rparr>"
  by (cases ev)
    (simp_all add: push_follow_notification_rows push_comment_notification_rows
      push_collect_notification_rows)

lemma push_events_Cons:
  "push_events url_for rcv (ev # evs) d = push_events url_for rcv evs (push_event url_for rcv ev d)"
  by (simp add: push_events_def)

lemma push_events_rows:
  "pending d = [] \<Longrightarrow>
   push_events url_for rcv evs d =
     d\<lparr>notifications := notifications d @ map (\<lambda>ev. Notification (event_message url_for ev) rcv) evs,
       commits := commits d + length evs\<rparr>"
proof (induction evs arbitrary: d)
  case Nil
  then show ?case by (simp add: push_events_def)
next
  case (Cons ev evs)
  let ?d1 = "push_event url_for rcv ev d"
  have p: "pending ?d1 = []" by (simp add: push_event_rows)
  have "push_events url_for rcv (ev # evs) d = push_events url_for rcv evs ?d1"
    by (rule push_events_Cons)
  also have "\<dots> = ?d1\<lparr>notifications := notifications ?d1 @ map (\<lambda>ev. Notification (event_message url_for ev) rcv) evs,
       commits := commits ?d1 + length evs\<rparr>"
    using p by (rule Cons.IH)
  finally show ?case using Cons.prems by (simp add: push_event_rows)
qed

lemma push_events_any:
  "push_events url_for rcv (ev # evs) d =
     d\<lparr>notifications := notifications d @ pending d
         @ map (\<lambda>ev. Notification (event_message url_for ev) rcv) (ev # evs),
       pending := [], commits := commits d + length (ev # evs)\<rparr>"
proof -
  let ?d1 = "push_event url_for rcv ev d"
  have p: "pending ?d1 = []" by (simp add: push_event_rows)
  have "push_events url_for rcv (ev # evs) d = push_events url_for rcv evs ?d1"
    by (rule push_events_Cons)
  also have "\<dots> = ?d1\<lparr>notifications := notifications ?d1 @ map (\<lambda>ev. Notification (event_message url_for ev) rcv) evs,
       commits := commits ?d1 + length evs\<rparr>"
    using p by (rule push_events_rows)
  finally show ?thesis by (simp add: push_event_rows)
qed

text \<open>
  C9. Every call of \<^verbatim>\<open>push_follow_notification\<close>, \<^verbatim>\<open>push_comment_notification\<close> or
  \<^verbatim>\<open>push_collect_notification\<close> appends exactly one notification row, for the given
  receiver and unread, and commits at once: the rows after the call are the rows before
  it, then whatever the session held uncommitted from before the call, then the one new
  row, last; nothing is left uncommitted and the commits are one more. So a sequence of
  \<open>n\<close> events for one receiver appends exactly \<open>n\<close> rows, in call order, each unread,
  with \<open>n\<close> commits.
\<close>

theorem push_notifications_append:
  "notifications (push_follow_notification url_for follower rcv d)
       = notifications d @ pending d
           @ [\<lparr>message = follow_message url_for follower, receiver = rcv, is_read = False\<rparr>]
   \<and> pending (push_follow_notification url_for follower rcv d) = []
   \<and> commits (push_follow_notification url_for follower rcv d) = Suc (commits d)
   \<and> notifications (push_comment_notification url_for photo_id rcv page d)
       = notifications d @ pending d
           @ [\<lparr>message = comment_message url_for photo_id page, receiver = rcv, is_read = False\<rparr>]
   \<and> pending (push_comment_notification url_for photo_id rcv page d) = []
   \<and> commits (push_comment_notification url_for photo_id rcv page d) = Suc (commits d)
   \<and> notifications (push_collect_notification url_for collector photo_id rcv d)
       = notifications d @ pending d
           @ [\<lparr>message = collect_message url_for collector photo_id, receiver = rcv, is_read = False\<rparr>]
   \<and> pending (push_collect_notification url_for collector photo_id rcv d) = []
   \<and> commits (push_collect_notification url_for collector photo_id rcv d) = Suc (commits d)
   \<and> notifications (push_events url_for rcv evs d)
       = (if evs = [] then notifications d
          else notifications d @ pending d
            @ map (\<lambda>ev. \<lparr>message = event_message url_for ev, receiver = rcv, is_read = False\<rparr>) evs)
   \<and> pending (push_events url_for rcv evs d) = (if evs = [] then pending d else [])
   \<and> commits (push_events url_for rcv evs d) = commits d + length evs"
proof (cases evs)
  case Nil
  then show ?thesis
    by (simp add: push_follow_notification_rows push_comment_notification_rows
        push_collect_notification_rows push_events_def Notification_def)
next
  case (Cons ev evs')
  then show ?thesis
    by (simp add: push_follow_notification_rows push_comment_notification_rows
        push_collect_notification_rows push_events_any Notification_def)
qed

theorem push_notifications_append_witness:
  \<open>notifications (push_events url0 bob [Follow alice, Comment 7 1, Collect alice 7] db0) =
     [\<lparr>message = ''User <a href="/user.index">alice</a> followed you.'', receiver = bob, is_read = False\<rparr>,
      \<lparr>message = ''<a href="/main.show_photo#comments">This photo</a> has new comment/reply.'',
         receiver = bob, is_read = False\<rparr>,
      \<lparr>message = ''User <a href="/user.index">alice</a> collected your <a href="/main.show_photo">photo</a>'',
         receiver = bob, is_read = False\<rparr>]
   \<and> commits (push_events url0 bob [Follow alice, Comment 7 1, Collect alice 7] db0) = 3\<close>
  using push_notifications_append [of url0 alice bob db0 7 1 alice "[Follow alice, Comment 7 1, Collect alice 7]"]
  by (simp add: db0_def follow_message_def comment_message_def collect_message_def url0_def alice_def)

section \<open>The anonymous identity\<close>

text \<open>
  C10. The anonymous identity has no capability: \<^verbatim>\<open>Guest.can\<close> is false for every
  permission name and \<^verbatim>\<open>Guest.is_admin\<close> is false, so a view behind
  \<^verbatim>\<open>permission_required\<close> (for any permission) or \<^verbatim>\<open>admin_required\<close> aborts with 403 for
  a request with no login and the view is not run.
\<close>

theorem Guest_denied:
  "can Guest p = False \<and> is_admin Guest = False
   \<and> permission_required p func Guest args = Abort 403
   \<and> admin_required func Guest args = Abort 403"
  by (simp add: Guest_def permission_required_def admin_required_def)

end
